theory Spec2Isabelle
  imports Complex_Main "HOL-Library.Sublist" "HOL-Library.AList"
begin

section \<open>The graph session store of the node-flow context\<close>

text \<open>
  The provider \<^verbatim>\<open>NodeGraphFlowProvider\<close> keeps its state in React state cells and
  exposes callbacks that read the cells of the current render and call their setters.
  Each callback is modelled as a function from the state of the render it runs in to the
  state the setters leave behind; a callback that throws leaves every cell as it was and
  returns the error.
\<close>

subsection \<open>Data model\<close>

text \<open>
  A node or edge identifier as the callbacks see it at run time: a string (what the
  rendering library's types ask for), a number, or \<^verbatim>\<open>undefined\<close> (the case
  \<^verbatim>\<open>?? 0\<close> looks for). Equality of the datatype is JavaScript's \<^verbatim>\<open>===\<close> on such
  values. \<open>IdNum n\<close> stands for the finite number (an IEEE double) whose value is the
  integer \<open>n\<close>; every integer from \<open>- 2 ^ 53\<close> to \<open>2 ^ 53\<close> is such a number, beyond
  them only the even ones up to \<open>2 ^ 54\<close>, then only multiples of four, and so on.
\<close>

datatype ident = IdUndefined | IdNum int | IdStr string

text \<open>
  The \<^verbatim>\<open>data\<close> object of a node (\<^verbatim>\<open>Partial<GraphNode>\<close>): its own properties in
  insertion order, each with a string contents. \<^verbatim>\<open>GraphNode\<close> is declared outside
  the reviewed files; the properties the callbacks read are \<^verbatim>\<open>label\<close> and
  \<^verbatim>\<open>name\<close>.
\<close>

type_synonym graph_data = "(string \<times> string) list"

record node =
  node_id :: ident
  data :: "graph_data option"
  node_type :: "string option"
  position :: "rat \<times> rat"

text \<open>An edge: \<open>edge_rest\<close> holds every property besides id, source and target.\<close>

record edge =
  edge_id :: ident
  source :: ident
  target :: ident
  edge_rest :: "(string \<times> string) list"

record persona =
  persona_nodes :: "node list"
  persona_edges :: "edge list"

text \<open>The argument of \<^verbatim>\<open>setNodePersonaFunc\<close> (\<^verbatim>\<open>NetworkTopology\<close>).\<close>

record topology =
  topology_type :: string
  topology_nodePersona :: persona

record state =
  isDialogOpen :: bool
  showGraph :: bool
  nodes :: "node list"
  edges :: "edge list"
  nodePersonaType :: "string option"
  nodePersona :: "persona option"
  nodeInfo :: "node option"

text \<open>What a callback can throw.\<close>

datatype error = TypeError | Error string

text \<open>
  The cells as \<^verbatim>\<open>useState\<close> initialises them; \<^verbatim>\<open>defaultNodePersona\<close> comes from
  a module outside the reviewed files and is a parameter.
\<close>

definition initial_state :: "persona option \<Rightarrow> state" where
  "initial_state defaultNodePersona =
     \<lparr>isDialogOpen = False, showGraph = False, nodes = [], edges = [],
      nodePersonaType = None, nodePersona = defaultNodePersona, nodeInfo = None\<rparr>"

subsection \<open>JavaScript primitives the callbacks use\<close>

text \<open>\<^verbatim>\<open>String.prototype.includes\<close>: does the search string occur in the string?\<close>

fun str_includes :: "string \<Rightarrow> string \<Rightarrow> bool" where
  "str_includes [] search = (search = [])"
| "str_includes (c # cs) search = (prefix search (c # cs) \<or> str_includes cs search)"

text \<open>A non-negative integer converted to a string, as string concatenation does.\<close>

definition digit :: "nat \<Rightarrow> char" where
  "digit d = ''0123456789'' ! d"

fun string_of_nat :: "nat \<Rightarrow> string" where
  "string_of_nat n =
     (if n < 10 then [digit n] else string_of_nat (n div 10) @ [digit (n mod 10)])"

text \<open>
  A possibly missing string inside a template literal: \<^verbatim>\<open>undefined\<close> is rendered as
  the text \<^verbatim>\<open>undefined\<close>.
\<close>

fun template :: "string option \<Rightarrow> string" where
  "template None = ''undefined''"
| "template (Some s) = s"

text \<open>
  \<^verbatim>\<open>Array.prototype.findIndex\<close>: the index of the first element satisfying the
  predicate, \<open>-1\<close> when there is none.
\<close>

fun findIndex :: "('a \<Rightarrow> bool) \<Rightarrow> 'a list \<Rightarrow> int" where
  "findIndex p [] = - 1"
| "findIndex p (x # xs) =
     (if p x then 0 else (let i = findIndex p xs in if i = - 1 then - 1 else i + 1))"

text \<open>
  \<^verbatim>\<open>n + 1\<close> on a number of integer value \<open>n\<close>: the sum of two doubles, rounded to the
  nearest double, a tie going to the one with the even significand. From \<open>- 2 ^ 53\<close> up to
  \<open>2 ^ 53 - 1\<close> the sum is a double and the addition is exact. For any other \<open>n\<close> below
  \<open>2 ^ 54\<close> in absolute value the doubles around it are the even integers, \<open>n + 1\<close> lies
  midway between \<open>n\<close> and \<open>n + 2\<close>, and the one whose half is even wins: so \<open>2 ^ 53 + 1\<close>
  is \<open>2 ^ 53\<close> again. Further out the doubles are at least four apart and the sum rounds
  back to \<open>n\<close>.
\<close>

definition double_plus_one :: "int \<Rightarrow> int" where
  "double_plus_one n =
     (if - (2 ^ 53) \<le> n \<and> n < 2 ^ 53 then n + 1
      else if \<bar>n\<bar> < 2 ^ 54 \<and> odd (\<bar>n\<bar> div 2) then n + 2
      else n)"

text \<open>
  \<^verbatim>\<open>(id ?? 0) + 1\<close>: an undefined identifier counts as \<open>0\<close>; \<^verbatim>\<open>+\<close> adds one to a
  number, as doubles, and appends the text \<^verbatim>\<open>1\<close> to a string.
\<close>

fun plus_one :: "ident \<Rightarrow> ident" where
  "plus_one IdUndefined = IdNum 1"
| "plus_one (IdNum n) = IdNum (double_plus_one n)"
| "plus_one (IdStr s) = IdStr (s @ ''1'')"

subsection \<open>The callbacks\<close>

definition openDialog :: "state \<Rightarrow> state" where
  "openDialog s = s\<lparr>isDialogOpen := True\<rparr>"

definition closeDialog :: "state \<Rightarrow> state" where
  "closeDialog s = s\<lparr>isDialogOpen := False, nodeInfo := None\<rparr>"

definition setNodeEdges :: "edge list \<Rightarrow> state \<Rightarrow> state" where
  "setNodeEdges edge s = s\<lparr>edges := edge\<rparr>"

definition setNodePersonaFunc :: "topology \<Rightarrow> state \<Rightarrow> state" where
  "setNodePersonaFunc t s =
     setNodeEdges (persona_edges (topology_nodePersona t))
       (s\<lparr>nodePersonaType := Some (topology_type t),
          nodePersona := Some (topology_nodePersona t),
          nodes := persona_nodes (topology_nodePersona t)\<rparr>)"

definition showGraphFunc :: "state \<Rightarrow> state" where
  "showGraphFunc s = s\<lparr>showGraph := True\<rparr>"

text \<open>
  The filter callback of \<^verbatim>\<open>createNewNode\<close>,
  \<^verbatim>\<open>node.data?.label.includes("new node")\<close>: a node without data is skipped by the
  optional chain, a data object without a label makes \<^verbatim>\<open>.includes\<close> throw.
\<close>

definition is_new_node :: "node \<Rightarrow> error + bool" where
  "is_new_node n =
     (case data n of
        None \<Rightarrow> Inr False
      | Some d \<Rightarrow>
          (case map_of d ''label'' of
             None \<Rightarrow> Inl TypeError
           | Some l \<Rightarrow> Inr (str_includes l ''new node'')))"

text \<open>\<^verbatim>\<open>nodes.filter\<close> with that callback, front to back; the first throw ends it.\<close>

fun filter_new_nodes :: "node list \<Rightarrow> error + node list" where
  "filter_new_nodes [] = Inr []"
| "filter_new_nodes (n # ns) =
     (case is_new_node n of
        Inl e \<Rightarrow> Inl e
      | Inr b \<Rightarrow>
          (case filter_new_nodes ns of
             Inl e \<Rightarrow> Inl e
           | Inr r \<Rightarrow> Inr (if b then n # r else r)))"

text \<open>
  \<^verbatim>\<open>createNewNode\<close>. The canvas constants come from the configuration module and are
  parameters. Reading \<^verbatim>\<open>.id\<close> of the last element of an empty array throws.
\<close>

definition createNewNode :: "rat \<Rightarrow> rat \<Rightarrow> state \<Rightarrow> error + node" where
  "createNewNode CANVAS_WIDTH CANVAS_HEIGHT s =
     (case filter_new_nodes (nodes s) of
        Inl e \<Rightarrow> Inl e
      | Inr newNodes \<Rightarrow>
          (let newNodesNumber = length newNodes in
           if nodes s = [] then Inl TypeError
           else
             (let ident = plus_one (node_id (last (nodes s))) in
              Inr \<lparr>node_id = ident,
                   data = Some [(''label'', ''new node '' @ string_of_nat newNodesNumber),
                                (''name'', ''new node '' @ string_of_nat newNodesNumber)],
                   node_type = Some ''draggable'',
                   position = (CANVAS_WIDTH / 2, CANVAS_HEIGHT / 2)\<rparr>)))"

text \<open>\<^verbatim>\<open>addNode(node?)\<close>: the argument is \<open>None\<close> when the caller passes nothing.\<close>

definition addNode :: "rat \<Rightarrow> rat \<Rightarrow> node option \<Rightarrow> state \<Rightarrow> error + state" where
  "addNode CANVAS_WIDTH CANVAS_HEIGHT node s =
     (case (case node of
              Some n \<Rightarrow> Inr n
            | None \<Rightarrow> createNewNode CANVAS_WIDTH CANVAS_HEIGHT s) of
        Inl e \<Rightarrow> Inl e
      | Inr newNode \<Rightarrow>
          Inr (openDialog (s\<lparr>nodes := nodes s @ [newNode], nodeInfo := Some newNode\<rparr>)))"

definition editNode :: "node \<Rightarrow> state \<Rightarrow> state" where
  "editNode node s = openDialog (s\<lparr>nodeInfo := Some node\<rparr>)"

text \<open>\<^verbatim>\<open>node?.data?.label\<close>.\<close>

definition node_label :: "node \<Rightarrow> string option" where
  "node_label n = (case data n of None \<Rightarrow> None | Some d \<Rightarrow> map_of d ''label'')"

definition duplicateNode :: "rat \<Rightarrow> rat \<Rightarrow> node \<Rightarrow> state \<Rightarrow> error + state" where
  "duplicateNode CANVAS_WIDTH CANVAS_HEIGHT node s =
     (let len = length (nodes s);
          duplicate =
            node\<lparr>node_id := IdStr (string_of_nat len),
                 data := Some [(''label'', template (node_label node) @ '' duplicate''),
                               (''name'', template (node_label node) @ '' duplicate'')]\<rparr>
      in addNode CANVAS_WIDTH CANVAS_HEIGHT (Some duplicate) s)"

text \<open>
  \<^verbatim>\<open>updateNodeInfo\<close>: with no buffer in flight it returns at once; writing a property
  of a missing data object throws. With a buffer in flight the source writes into the data
  object the buffer refers to, and a node of the collection that refers to the same object
  shows the new property too. The model holds data by value: its buffer-in-flight branch
  gives the buffer cell only and says nothing of such a shared node, nor of the place an
  integer-like property name takes among the properties. Nothing below is proved about
  that branch.
\<close>

definition updateNodeInfo :: "string \<Rightarrow> string \<Rightarrow> state \<Rightarrow> error + state" where
  "updateNodeInfo nodeProperty v s =
     (case nodeInfo s of
        None \<Rightarrow> Inr s
      | Some info \<Rightarrow>
          (case data info of
             None \<Rightarrow> Inl TypeError
           | Some d \<Rightarrow>
               Inr (s\<lparr>nodeInfo := Some (info\<lparr>data := Some (AList.update nodeProperty v d)\<rparr>)\<rparr>)))"

text \<open>The edge mapper of \<^verbatim>\<open>saveEditedNode\<close>: a fresh object of three properties.\<close>

definition strip_edge :: "edge \<Rightarrow> edge" where
  "strip_edge e = \<lparr>edge_id = edge_id e, source = source e, target = target e, edge_rest = []\<rparr>"

definition saveEditedNode :: "state \<Rightarrow> state" where
  "saveEditedNode s =
     (case nodeInfo s of
        None \<Rightarrow> s
      | Some info \<Rightarrow>
          (let nodeIndex = findIndex (\<lambda>n. node_id n = node_id info) (nodes s) in
           if nodeIndex \<noteq> - 1 then
             closeDialog
               (s\<lparr>nodes := (nodes s)[nat nodeIndex := info],
                  edges := map strip_edge (edges s)\<rparr>)
           else s))"

definition deleteNode :: "node \<Rightarrow> state \<Rightarrow> state" where
  "deleteNode node s =
     (let updatedNodes = filter (\<lambda>n. node_id n \<noteq> node_id node) (nodes s);
          newEdges =
            filter (\<lambda>e. \<not> (source e = node_id node \<or> target e = node_id node)) (edges s)
      in s\<lparr>edges := newEdges, nodes := updatedNodes\<rparr>)"

subsection \<open>The context hook\<close>

text \<open>
  What a context can hold: \<^verbatim>\<open>null\<close>, \<^verbatim>\<open>undefined\<close> or a provider's value.
  \<^verbatim>\<open>React.useContext\<close> returns the value of the nearest provider above the caller, and
  the default given to \<^verbatim>\<open>createContext\<close> when there is none.
\<close>

datatype 'a context_value = Null | Undefined | Provided 'a

definition useContext :: "'a context_value \<Rightarrow> 'a context_value option \<Rightarrow> 'a context_value" where
  "useContext dflt provider = (case provider of None \<Rightarrow> dflt | Some v \<Rightarrow> v)"

text \<open>\<^verbatim>\<open>React.createContext<NodeGraphContext>(null!)\<close>: the default is \<^verbatim>\<open>null\<close>.\<close>

definition nodeFlowContext :: "'a context_value" where
  "nodeFlowContext = Null"

definition useNodeFlowContext :: "'a context_value option \<Rightarrow> error + 'a context_value" where
  "useNodeFlowContext provider =
     (let context = useContext nodeFlowContext provider in
      if context = Undefined then
        Inl (Error ''useNodeGraphContext must be used within a NodeGraphProvider'')
      else Inr context)"

subsection \<open>Sequences of calls and referential integrity\<close>

text \<open>
  Every edge of the edge collection has its source and its target among the identifiers
  of the node collection.
\<close>

definition integrity :: "state \<Rightarrow> bool" where
  "integrity s =
     (\<forall>e\<in>set (edges s).
        source e \<in> node_id ` set (nodes s) \<and> target e \<in> node_id ` set (nodes s))"

text \<open>
  A call of \<^verbatim>\<open>addNode\<close> (with or without a node) or of \<^verbatim>\<open>deleteNode\<close>. Each call
  runs in the render that follows the previous one; a call that throws has called no
  setter, so the next call starts from the same state.
\<close>

datatype call = AddNode "node option" | DeleteNode node

fun call_step :: "rat \<Rightarrow> rat \<Rightarrow> call \<Rightarrow> state \<Rightarrow> state" where
  "call_step cw ch (AddNode n) s = (case addNode cw ch n s of Inl e \<Rightarrow> s | Inr s' \<Rightarrow> s')"
| "call_step cw ch (DeleteNode n) s = deleteNode n s"

fun run_calls :: "rat \<Rightarrow> rat \<Rightarrow> call list \<Rightarrow> state \<Rightarrow> state" where
  "run_calls cw ch [] s = s"
| "run_calls cw ch (c # cs) s = run_calls cw ch cs (call_step cw ch c s)"

subsection \<open>A small graph used in the examples\<close>

definition node_a :: node where
  "node_a = \<lparr>node_id = IdStr ''a'', data = Some [(''label'', ''A''), (''name'', ''alpha'')],
             node_type = Some ''draggable'', position = (10, 20)\<rparr>"

definition node_b :: node where
  "node_b = \<lparr>node_id = IdStr ''b'',
             data = Some [(''label'', ''new node 0''), (''name'', ''new node 0'')],
             node_type = Some ''draggable'', position = (30, 40)\<rparr>"

definition edge_e1 :: edge where
  "edge_e1 = \<lparr>edge_id = IdStr ''e1'', source = IdStr ''a'', target = IdStr ''b'',
              edge_rest = [(''animated'', ''true'')]\<rparr>"

definition example_state :: state where
  "example_state =
     \<lparr>isDialogOpen = False, showGraph = True, nodes = [node_a, node_b], edges = [edge_e1],
      nodePersonaType = None, nodePersona = None, nodeInfo = None\<rparr>"

section \<open>Facts about the primitives\<close>

lemma findIndex_ge: "- 1 \<le> findIndex p xs"
  by (induction xs) (auto simp: Let_def)

lemma findIndex_none: "findIndex p xs = - 1 \<longleftrightarrow> (\<forall>x\<in>set xs. \<not> p x)"
proof (induction xs)
  case Nil
  then show ?case by simp
next
  case (Cons x xs)
  have "- 1 \<le> findIndex p xs" by (rule findIndex_ge)
  with Cons show ?case by (auto simp: Let_def)
qed

lemma findIndex_first:
  assumes "findIndex p xs \<noteq> - 1"
  shows "nat (findIndex p xs) < length xs \<and> p (xs ! nat (findIndex p xs))
         \<and> (\<forall>j < nat (findIndex p xs). \<not> p (xs ! j)) \<and> 0 \<le> findIndex p xs"
  using assms
proof (induction xs)
  case Nil
  then show ?case by simp
next
  case (Cons x xs)
  show ?case
  proof (cases "p x")
    case True
    then show ?thesis by simp
  next
    case False
    with Cons.prems have ne: "findIndex p xs \<noteq> - 1"
      by (auto simp: Let_def split: if_splits)
    from Cons.IH [OF ne] have ih: "nat (findIndex p xs) < length xs"
      "p (xs ! nat (findIndex p xs))"
      "\<forall>j < nat (findIndex p xs). \<not> p (xs ! j)" "0 \<le> findIndex p xs" by auto
    have eq: "findIndex p (x # xs) = findIndex p xs + 1"
      using False ne by (simp add: Let_def)
    have n: "nat (findIndex p xs + 1) = Suc (nat (findIndex p xs))"
      using ih(4) by simp
    show ?thesis unfolding eq n using ih False
      by (auto simp: nth_Cons split: nat.splits)
  qed
qed


text \<open>\<open>string_of_nat\<close> writes the decimal digits of its argument.\<close>

lemma digit_val: "d < 10 \<Longrightarrow> of_char (digit d) = 48 + d"
  unfolding digit_def by (cases d rule: nat.exhaust; simp add: nth_Cons')

lemma string_of_nat_decimal:
  "foldl (\<lambda>a c. 10 * a + (of_char c - 48)) 0 (string_of_nat n) = n"
proof (induction n rule: string_of_nat.induct)
  case (1 n)
  show ?case
  proof (cases "n < 10")
    case True
    then show ?thesis by (simp add: digit_val)
  next
    case False
    with 1 have "foldl (\<lambda>a c. 10 * a + (of_char c - 48)) 0 (string_of_nat (n div 10)) = n div 10"
      by simp
    moreover have "string_of_nat n = string_of_nat (n div 10) @ [digit (n mod 10)]"
      using False by (subst string_of_nat.simps) simp
    ultimately show ?thesis by (simp add: digit_val)
  qed
qed


lemma double_plus_one_rounds:
  "double_plus_one 9007199254740992 = 9007199254740992"
  "double_plus_one 9007199254740994 = 9007199254740996"
  "double_plus_one (- 9007199254740994) = - 9007199254740992"
  "double_plus_one 18014398509481984 = 18014398509481984"
  by (simp_all add: double_plus_one_def)


lemma filter_new_nodes_throws:
  assumes "n \<in> set ns" and "data n = Some d" and "map_of d ''label'' = None"
  shows "filter_new_nodes ns = Inl TypeError"
  using assms
proof (induction ns)
  case Nil
  then show ?case by simp
next
  case (Cons m ns)
  then show ?case
    by (cases "is_new_node m"; cases "filter_new_nodes ns")
       (auto simp: is_new_node_def split: option.splits)
qed

text \<open>What a returning \<^verbatim>\<open>addNode\<close> leaves in the cells.\<close>

lemma addNode_supplied:
  "addNode cw ch (Some n) s =
     Inr (s\<lparr>nodes := nodes s @ [n], nodeInfo := Some n, isDialogOpen := True\<rparr>)"
  by (simp add: addNode_def openDialog_def)

lemma addNode_synthesized:
  "createNewNode cw ch s = Inr n \<Longrightarrow>
   addNode cw ch None s =
     Inr (s\<lparr>nodes := nodes s @ [n], nodeInfo := Some n, isDialogOpen := True\<rparr>)"
  by (simp add: addNode_def openDialog_def)

lemma addNode_cells:
  assumes "addNode cw ch n s = Inr s'"
  shows "\<exists>m. nodes s' = nodes s @ [m] \<and> nodeInfo s' = Some m" and "edges s' = edges s"
    and "isDialogOpen s'"
  using assms by (auto simp: addNode_def openDialog_def split: sum.splits option.splits)

text \<open>Each call keeps referential integrity.\<close>

lemma integrity_addNode: "integrity s \<Longrightarrow> addNode cw ch n s = Inr s' \<Longrightarrow> integrity s'"
  using addNode_cells(1,2) [of cw ch n s s'] by (auto simp: integrity_def)

lemma integrity_deleteNode: "integrity s \<Longrightarrow> integrity (deleteNode n s)"
  by (auto simp: integrity_def deleteNode_def)

lemma integrity_call_step: "integrity s \<Longrightarrow> integrity (call_step cw ch c s)"
  by (cases c) (auto split: sum.splits intro: integrity_addNode integrity_deleteNode)

section \<open>Referential integrity\<close>

text \<open>
  C1. Starting from a state in which every edge's source and target are identifiers of
  nodes of the node collection, after any sequence of \<^verbatim>\<open>addNode\<close> and
  \<^verbatim>\<open>deleteNode\<close> calls every edge left in the edge collection still has its source and
  its target among the identifiers of the node collection.
\<close>

theorem integrity_run_calls: "integrity s \<Longrightarrow> integrity (run_calls cw ch cs s)"
  by (induction cs arbitrary: s) (auto intro: integrity_call_step)

text \<open>
  The example graph has integrity; adding a default node, deleting node \<open>a\<close> and adding a
  second copy of node \<open>b\<close> drops the edge from \<open>a\<close> to \<open>b\<close> and leaves integrity intact.
\<close>

theorem integrity_run_calls_witness:
  "integrity example_state
   \<and> integrity (run_calls 800 600 [AddNode None, DeleteNode node_a, AddNode (Some node_b)]
        example_state)
   \<and> map node_id (nodes (run_calls 800 600
        [AddNode None, DeleteNode node_a, AddNode (Some node_b)] example_state))
       = [IdStr ''b'', IdStr ''b1'', IdStr ''b'']
   \<and> edges (run_calls 800 600 [AddNode None, DeleteNode node_a, AddNode (Some node_b)]
        example_state) = []"
  using integrity_run_calls
    [of example_state 800 600 "[AddNode None, DeleteNode node_a, AddNode (Some node_b)]"]
  by (simp add: integrity_def example_state_def node_a_def node_b_def edge_e1_def addNode_def
        createNewNode_def is_new_node_def openDialog_def deleteNode_def digit_def)

section \<open>Saving the edit buffer\<close>

text \<open>
  C2. \<^verbatim>\<open>saveEditedNode\<close> (the spec's saveEdit): when an edit buffer is in flight and
  some node of the collection has the buffer's identifier, the node at the first position
  with that identifier is replaced by the buffer, every edge is rewritten to its
  identifier, source and target alone, the dialog flag becomes false and the buffer is
  cleared; the other cells keep their contents.
\<close>

theorem saveEditedNode_commits:
  assumes "nodeInfo s = Some b" and "\<exists>n\<in>set (nodes s). node_id n = node_id b"
  shows "\<exists>i < length (nodes s).
           node_id (nodes s ! i) = node_id b
           \<and> (\<forall>j < i. node_id (nodes s ! j) \<noteq> node_id b)
           \<and> saveEditedNode s =
               s\<lparr>nodes := (nodes s)[i := b],
                  edges := map (\<lambda>e. \<lparr>edge_id = edge_id e, source = source e,
                                       target = target e, edge_rest = []\<rparr>) (edges s),
                  isDialogOpen := False,
                  nodeInfo := None\<rparr>"
proof -
  let ?p = "\<lambda>n. node_id n = node_id b"
  let ?k = "findIndex ?p (nodes s)"
  from assms(2) have ne: "?k \<noteq> - 1" by (simp add: findIndex_none)
  from findIndex_first [OF ne]
  have k: "nat ?k < length (nodes s)" "?p (nodes s ! nat ?k)"
    "\<forall>j < nat ?k. \<not> ?p (nodes s ! j)"
    by auto
  have "saveEditedNode s =
        s\<lparr>nodes := (nodes s)[nat ?k := b],
           edges := map (\<lambda>e. \<lparr>edge_id = edge_id e, source = source e,
                                target = target e, edge_rest = []\<rparr>) (edges s),
           isDialogOpen := False, nodeInfo := None\<rparr>"
    using assms(1) ne
    by (simp add: saveEditedNode_def Let_def closeDialog_def strip_edge_def [abs_def])
  with k show ?thesis by blast
qed

text \<open>
  Saving an edited copy of node \<open>b\<close> while the dialog is open: the copy takes the place of
  \<open>b\<close>, and the edge loses its \<^verbatim>\<open>animated\<close> property.
\<close>

theorem saveEditedNode_commits_witness:
  "saveEditedNode
     (example_state\<lparr>isDialogOpen := True,
        nodeInfo := Some (node_b\<lparr>data := Some [(''label'', ''B''), (''name'', ''beta'')]\<rparr>)\<rparr>)
   = \<lparr>isDialogOpen = False, showGraph = True,
      nodes = [node_a, node_b\<lparr>data := Some [(''label'', ''B''), (''name'', ''beta'')]\<rparr>],
      edges = [\<lparr>edge_id = IdStr ''e1'', source = IdStr ''a'', target = IdStr ''b'',
                edge_rest = []\<rparr>],
      nodePersonaType = None, nodePersona = None, nodeInfo = None\<rparr>"
  using saveEditedNode_commits
    [of "example_state\<lparr>isDialogOpen := True,
        nodeInfo := Some (node_b\<lparr>data := Some [(''label'', ''B''), (''name'', ''beta'')]\<rparr>)\<rparr>"
        "node_b\<lparr>data := Some [(''label'', ''B''), (''name'', ''beta'')]\<rparr>"]
  by (simp add: example_state_def node_a_def node_b_def edge_e1_def saveEditedNode_def
        closeDialog_def strip_edge_def)

text \<open>
  C5. With no edit buffer in flight, \<^verbatim>\<open>saveEditedNode\<close> and \<^verbatim>\<open>updateNodeInfo\<close>
  return normally and leave every cell of the state as it was; so does
  \<^verbatim>\<open>saveEditedNode\<close> with a buffer whose identifier no node of the collection has.
\<close>

theorem no_op_without_target:
  "(nodeInfo s = None \<longrightarrow> saveEditedNode s = s \<and> updateNodeInfo p v s = Inr s)
   \<and> (nodeInfo s = Some b \<and> (\<forall>n\<in>set (nodes s). node_id n \<noteq> node_id b)
        \<longrightarrow> saveEditedNode s = s)"
proof -
  have "findIndex (\<lambda>n. node_id n = node_id b) (nodes s) = - 1"
    if "\<forall>n\<in>set (nodes s). node_id n \<noteq> node_id b"
    using that by (simp add: findIndex_none)
  then show ?thesis
    by (auto simp: saveEditedNode_def updateNodeInfo_def Let_def)
qed

text \<open>
  The example state has no buffer; with a buffer of identifier \<open>z\<close>, which no node has,
  saving changes nothing either.
\<close>

theorem no_op_without_target_witness:
  "nodeInfo example_state = None
   \<and> saveEditedNode example_state = example_state
   \<and> updateNodeInfo ''label'' ''renamed'' example_state = Inr example_state
   \<and> nodeInfo (example_state\<lparr>nodeInfo := Some (node_a\<lparr>node_id := IdStr ''z''\<rparr>)\<rparr>)
       = Some (node_a\<lparr>node_id := IdStr ''z''\<rparr>)
   \<and> saveEditedNode (example_state\<lparr>nodeInfo := Some (node_a\<lparr>node_id := IdStr ''z''\<rparr>)\<rparr>)
       = example_state\<lparr>nodeInfo := Some (node_a\<lparr>node_id := IdStr ''z''\<rparr>)\<rparr>"
  using no_op_without_target [of example_state "''label''" "''renamed''"]
    no_op_without_target
      [of "example_state\<lparr>nodeInfo := Some (node_a\<lparr>node_id := IdStr ''z''\<rparr>)\<rparr>"
          _ _ "node_a\<lparr>node_id := IdStr ''z''\<rparr>"]
  by (simp add: example_state_def node_a_def node_b_def)

section \<open>Deleting a node\<close>

text \<open>
  C3. \<^verbatim>\<open>deleteNode(n)\<close>, from any state: the node collection afterwards is the prior
  one without the nodes of \<open>n\<close>'s identifier; no edge of the edge collection afterwards
  has \<open>n\<close>'s identifier as source or target; every prior edge touching neither is still
  there, and no edge is new. In particular, from nodes \<open>a\<close> and \<open>b\<close> and one edge from
  \<open>a\<close> to \<open>b\<close>, deleting a node of identifier \<open>a\<close> leaves the node \<open>b\<close> and no edge.
\<close>

theorem deleteNode_cascade:
  "nodes (deleteNode n s) = filter (\<lambda>m. node_id m \<noteq> node_id n) (nodes s)
   \<and> (\<forall>e\<in>set (edges (deleteNode n s)). source e \<noteq> node_id n \<and> target e \<noteq> node_id n)
   \<and> (\<forall>e\<in>set (edges s). source e \<noteq> node_id n \<and> target e \<noteq> node_id n
         \<longrightarrow> e \<in> set (edges (deleteNode n s)))
   \<and> set (edges (deleteNode n s)) \<subseteq> set (edges s)
   \<and> deleteNode (n\<lparr>node_id := IdStr ''a''\<rparr>)
        (s\<lparr>nodes := [na\<lparr>node_id := IdStr ''a''\<rparr>, nb\<lparr>node_id := IdStr ''b''\<rparr>],
           edges := [ed\<lparr>source := IdStr ''a'', target := IdStr ''b''\<rparr>]\<rparr>)
      = s\<lparr>nodes := [nb\<lparr>node_id := IdStr ''b''\<rparr>], edges := []\<rparr>"
  by (auto simp: deleteNode_def)

text \<open>The scenario on the example graph, deleting by a bare \<open>{id: "a"}\<close>.\<close>

theorem deleteNode_cascade_witness:
  "deleteNode \<lparr>node_id = IdStr ''a'', data = None, node_type = None, position = (0, 0)\<rparr>
     example_state
   = \<lparr>isDialogOpen = False, showGraph = True, nodes = [node_b], edges = [],
      nodePersonaType = None, nodePersona = None, nodeInfo = None\<rparr>"
  using deleteNode_cascade
    [where n = "\<lparr>node_id = IdStr ''a'', data = None, node_type = None, position = (0, 0)\<rparr>"
       and s = example_state and na = node_a and nb = node_b and ed = edge_e1]
  by (simp add: example_state_def node_a_def node_b_def edge_e1_def)

text \<open>
  C10. \<^verbatim>\<open>deleteNode(n)\<close> removes every node of \<open>n\<close>'s identifier, not only the first,
  and the surviving nodes and the surviving edges keep their relative order: both
  collections are the prior ones filtered.
\<close>

theorem deleteNode_all_in_order:
  "nodes (deleteNode n s) = filter (\<lambda>m. node_id m \<noteq> node_id n) (nodes s)
   \<and> edges (deleteNode n s)
       = filter (\<lambda>e. source e \<noteq> node_id n \<and> target e \<noteq> node_id n) (edges s)
   \<and> (\<forall>m\<in>set (nodes (deleteNode n s)). node_id m \<noteq> node_id n)
   \<and> subseq (nodes (deleteNode n s)) (nodes s)
   \<and> subseq (edges (deleteNode n s)) (edges s)"
  by (auto simp: deleteNode_def)

text \<open>
  Two nodes of identifier \<open>a\<close> among five: both go, the other three stay in order; of
  four edges the two touching \<open>a\<close> go, the other two stay in order.
\<close>

theorem deleteNode_all_in_order_witness:
  "nodes (deleteNode node_a
       (example_state\<lparr>nodes := [node_b, node_a, node_b\<lparr>node_id := IdStr ''c''\<rparr>,
                                node_a\<lparr>position := (1, 1)\<rparr>, node_b\<lparr>node_id := IdNum 7\<rparr>]\<rparr>))
   = [node_b, node_b\<lparr>node_id := IdStr ''c''\<rparr>, node_b\<lparr>node_id := IdNum 7\<rparr>]
   \<and> edges (deleteNode node_a
       (example_state\<lparr>edges := [edge_e1\<lparr>source := IdStr ''b'', target := IdStr ''c''\<rparr>, edge_e1,
                                edge_e1\<lparr>source := IdStr ''c'', target := IdStr ''a''\<rparr>,
                                edge_e1\<lparr>source := IdStr ''c'', target := IdStr ''b''\<rparr>]\<rparr>))
   = [edge_e1\<lparr>source := IdStr ''b'', target := IdStr ''c''\<rparr>,
      edge_e1\<lparr>source := IdStr ''c'', target := IdStr ''b''\<rparr>]"
  using deleteNode_all_in_order
    [of node_a "example_state\<lparr>nodes := [node_b, node_a, node_b\<lparr>node_id := IdStr ''c''\<rparr>,
                                node_a\<lparr>position := (1, 1)\<rparr>, node_b\<lparr>node_id := IdNum 7\<rparr>]\<rparr>"]
    deleteNode_all_in_order
    [of node_a "example_state\<lparr>edges := [edge_e1\<lparr>source := IdStr ''b'', target := IdStr ''c''\<rparr>,
                                edge_e1,
                                edge_e1\<lparr>source := IdStr ''c'', target := IdStr ''a''\<rparr>,
                                edge_e1\<lparr>source := IdStr ''c'', target := IdStr ''b''\<rparr>]\<rparr>"]
  by (simp add: example_state_def node_a_def node_b_def edge_e1_def)

section \<open>Loading a persona\<close>

text \<open>
  C7. \<^verbatim>\<open>setNodePersonaFunc\<close> (the spec's loadPersona): from any state and for any
  argument \<open>{type, nodePersona: {nodes: N, edges: E}}\<close>, afterwards the node collection
  equals \<open>N\<close>, the edge collection equals \<open>E\<close>, whatever they held before, and the selected
  persona type is the argument's type.
\<close>

theorem setNodePersonaFunc_replaces:
  "nodes (setNodePersonaFunc t s) = persona_nodes (topology_nodePersona t)
   \<and> edges (setNodePersonaFunc t s) = persona_edges (topology_nodePersona t)
   \<and> nodePersonaType (setNodePersonaFunc t s) = Some (topology_type t)"
  by (simp add: setNodePersonaFunc_def setNodeEdges_def)

section \<open>The context hook outside a provider\<close>

text \<open>
  C8. The claim is that \<^verbatim>\<open>useNodeFlowContext\<close> throws when no provider is above the
  caller. The hook compares the context value with \<^verbatim>\<open>undefined\<close>, but the default the
  context was created with is \<^verbatim>\<open>null\<close>: with no provider the hook returns \<^verbatim>\<open>null\<close>
  and throws nothing.
\<close>

theorem useNodeFlowContext_outside_provider:
  "useNodeFlowContext None = Inr Null"
  by (simp add: useNodeFlowContext_def useContext_def nodeFlowContext_def)

section \<open>Synthesizing and adding nodes\<close>




text \<open>
  C6. The claim is that \<^verbatim>\<open>addNode\<close> appends a node from every state. Called without a
  node on the state the provider starts in, whose node collection is empty,
  \<^verbatim>\<open>createNewNode\<close> reads \<^verbatim>\<open>.id\<close> of the missing last element and throws: nothing
  is appended, the dialog stays closed and the buffer stays empty. (With a node supplied,
  and without one whenever \<^verbatim>\<open>createNewNode\<close> returns, the call does what the claim
  says: \<open>addNode_supplied\<close>, \<open>addNode_synthesized\<close>.)
\<close>

theorem addNode_initial_state:
  "addNode cw ch None (initial_state p) = Inl TypeError"
  by (simp add: addNode_def createNewNode_def initial_state_def)

section \<open>Duplicating a node\<close>

text \<open>
  C9, as the code has it. \<^verbatim>\<open>duplicateNode(node)\<close>, from any state, never throws. Its
  clone keeps the node's top-level fields, takes as identifier the decimal string of the
  length of the node collection, and gets a new data object of two properties, label and
  name, both the node's label (the text \<^verbatim>\<open>undefined\<close> when the node has no data or no
  label) followed by a space and \<^verbatim>\<open>duplicate\<close>. The clone goes through \<^verbatim>\<open>addNode\<close>: it
  is appended, the dialog opens and the buffer holds the clone.
\<close>

theorem duplicateNode_clone:
  "duplicateNode cw ch n s =
     (let l = (case data n of
                 None \<Rightarrow> ''undefined''
               | Some d \<Rightarrow> (case map_of d ''label'' of None \<Rightarrow> ''undefined'' | Some t \<Rightarrow> t));
          clone = n\<lparr>node_id := IdStr (string_of_nat (length (nodes s))),
                     data := Some [(''label'', l @ '' duplicate''),
                                   (''name'', l @ '' duplicate'')]\<rparr>
      in Inr (s\<lparr>nodes := nodes s @ [clone], nodeInfo := Some clone, isDialogOpen := True\<rparr>))"
  by (simp add: duplicateNode_def addNode_def openDialog_def node_label_def Let_def
           split: option.splits)

text \<open>Duplicating a node that has a name and no label, on the example graph.\<close>

theorem duplicateNode_clone_witness:
  "duplicateNode 800 600 (node_b\<lparr>data := Some [(''name'', ''beta'')]\<rparr>) example_state =
     Inr \<lparr>isDialogOpen = True, showGraph = True,
          nodes = [node_a, node_b,
                   \<lparr>node_id = IdStr ''2'',
                    data = Some [(''label'', ''undefined duplicate''),
                                 (''name'', ''undefined duplicate'')],
                    node_type = Some ''draggable'', position = (30, 40)\<rparr>],
          edges = [edge_e1], nodePersonaType = None, nodePersona = None,
          nodeInfo = Some \<lparr>node_id = IdStr ''2'',
                    data = Some [(''label'', ''undefined duplicate''),
                                 (''name'', ''undefined duplicate'')],
                    node_type = Some ''draggable'', position = (30, 40)\<rparr>\<rparr>"
  using duplicateNode_clone
    [of 800 600 "node_b\<lparr>data := Some [(''name'', ''beta'')]\<rparr>" example_state]
  by (simp add: example_state_def node_b_def digit_def Let_def)

text \<open>
  C9 as stated fails. Node \<open>a\<close> has the label \<^verbatim>\<open>A\<close> and the name \<^verbatim>\<open>alpha\<close>; the name
  of its duplicate is \<^verbatim>\<open>A duplicate\<close>, made from the label, and not the original name
  with the suffix.
\<close>

theorem duplicateNode_counterexample:
  "duplicateNode 800 600 node_a example_state =
     Inr \<lparr>isDialogOpen = True, showGraph = True,
          nodes = [node_a, node_b,
                   \<lparr>node_id = IdStr ''2'',
                    data = Some [(''label'', ''A duplicate''), (''name'', ''A duplicate'')],
                    node_type = Some ''draggable'', position = (10, 20)\<rparr>],
          edges = [edge_e1], nodePersonaType = None, nodePersona = None,
          nodeInfo = Some \<lparr>node_id = IdStr ''2'',
                    data = Some [(''label'', ''A duplicate''), (''name'', ''A duplicate'')],
                    node_type = Some ''draggable'', position = (10, 20)\<rparr>\<rparr>
   \<and> data node_a = Some [(''label'', ''A''), (''name'', ''alpha'')]"
  by (simp add: duplicateNode_def addNode_def openDialog_def node_label_def Let_def
        example_state_def node_a_def digit_def)

end
